theory Spec2Isabelle
  imports Main "HOL-Library.Sublist"
begin

section \<open>The weather and chat backend: request handlers of \<open>src/server.js\<close>\<close>

text \<open>
  The handlers of \<open>src/server.js\<close> and the three schemas of \<open>src/models/City.js\<close> as
  HOL functions. A collection of the document store is the list of its documents in
  insertion order, passed to a handler and returned by it when the handler writes.
  The handler of \<open>POST /cities\<close>, which reads a collection and then writes it, is
  also given as the two steps between which the store serves other requests.
  Reading a collection always succeeds, and a save is refused only by the validation of
  its schema: the connection to the store is not modelled, so the \<open>catch\<close> branch of a
  handler is reached only through the errors that the model raises.
  A call to a remote service (the completion API, the weather API) and the \<open>bcrypt\<close>
  library are parameters of the handler that makes the call. A string is a list of
  characters with codes below 256. A field of a request body or query string is
  \<open>None\<close> when the request does not carry it and \<open>Some s\<close> when it carries the
  string \<open>s\<close>.
\<close>

subsection \<open>Values, errors and responses\<close>

datatype error =
    TypeError
  | ReferenceError
  | ValidationError
  | UpstreamError
  | InvalidAIResponse
  | ArgumentError
  | NotFound

text \<open>\<open>!v\<close> for a request field \<open>v\<close>: \<open>undefined\<close> and the empty string are falsy.\<close>

definition falsy :: "string option \<Rightarrow> bool" where
  "falsy v = (case v of None \<Rightarrow> True | Some s \<Rightarrow> s = [])"

text \<open>
  The result of awaiting a promise, and a promise that has not been awaited. A promise
  is an object, so \<open>!p\<close> is \<open>false\<close> whatever it settles to.
\<close>

datatype 'a settled = Fulfilled 'a | Rejected error

datatype 'a promise = Promise "'a settled"

definition js_not_promise :: "'a promise \<Rightarrow> bool" where
  "js_not_promise p = False"

text \<open>
  A value parsed from a JSON document, or \<open>undefined\<close>. An object is the list of its
  properties; a number is kept by its integer value (only whether it is zero is ever
  read).
\<close>

datatype json =
    JUndefined
  | JNull
  | JBool bool
  | JNum int
  | JStr string
  | JArr "json list"
  | JObj "(string \<times> json) list"

fun js_truthy :: "json \<Rightarrow> bool" where
  "js_truthy JUndefined = False"
| "js_truthy JNull = False"
| "js_truthy (JBool b) = b"
| "js_truthy (JNum n) = (n \<noteq> 0)"
| "js_truthy (JStr s) = (s \<noteq> [])"
| "js_truthy (JArr xs) = True"
| "js_truthy (JObj fs) = True"

text \<open>
  \<open>v.p\<close> for a property name \<open>p\<close> that no built-in prototype defines (the handlers
  read \<open>choices\<close>, \<open>message\<close> and \<open>content\<close>): a \<open>TypeError\<close> on \<open>undefined\<close> and
  \<open>null\<close>, the property's value on an object that has it, \<open>undefined\<close> otherwise.
\<close>

fun get_prop :: "json \<Rightarrow> string \<Rightarrow> error + json" where
  "get_prop JUndefined p = Inl TypeError"
| "get_prop JNull p = Inl TypeError"
| "get_prop (JObj fs) p = Inr (case map_of fs p of None \<Rightarrow> JUndefined | Some v \<Rightarrow> v)"
| "get_prop (JBool b) p = Inr JUndefined"
| "get_prop (JNum n) p = Inr JUndefined"
| "get_prop (JStr s) p = Inr JUndefined"
| "get_prop (JArr xs) p = Inr JUndefined"

text \<open>\<open>v[0]\<close>: the first element of an array, the first character of a string.\<close>

fun get_index0 :: "json \<Rightarrow> error + json" where
  "get_index0 JUndefined = Inl TypeError"
| "get_index0 JNull = Inl TypeError"
| "get_index0 (JArr xs) = Inr (case xs of [] \<Rightarrow> JUndefined | x # _ \<Rightarrow> x)"
| "get_index0 (JStr s) = Inr (case s of [] \<Rightarrow> JUndefined | c # _ \<Rightarrow> JStr [c])"
| "get_index0 (JObj fs) = Inr (case map_of fs ''0'' of None \<Rightarrow> JUndefined | Some v \<Rightarrow> v)"
| "get_index0 (JBool b) = Inr JUndefined"
| "get_index0 (JNum n) = Inr JUndefined"

text \<open>
  \<open>String.prototype.trim\<close> removes white space and line terminators from both ends;
  these are the ones with a code below 256.
\<close>

definition js_whitespace :: "char \<Rightarrow> bool" where
  "js_whitespace c =
     (c \<in> set [CHR 0x09, CHR 0x0A, CHR 0x0B, CHR 0x0C, CHR 0x0D, CHR 0x20, CHR 0xA0])"

definition trim :: "string \<Rightarrow> string" where
  "trim s = rev (dropWhile js_whitespace (rev (dropWhile js_whitespace s)))"

text \<open>
  \<open>v.trim()\<close>: only a string has the method; on any other value the call is a
  \<open>TypeError\<close>.
\<close>

fun call_trim :: "json \<Rightarrow> error + string" where
  "call_trim (JStr s) = Inr (trim s)"
| "call_trim JUndefined = Inl TypeError"
| "call_trim JNull = Inl TypeError"
| "call_trim (JBool b) = Inl TypeError"
| "call_trim (JNum n) = Inl TypeError"
| "call_trim (JArr xs) = Inl TypeError"
| "call_trim (JObj fs) = Inl TypeError"

subsection \<open>Data model (\<open>src/models/City.js\<close>)\<close>

record user =
  uid :: nat
  username :: string
  password :: string

record city =
  name :: string
  userId :: nat

record chat =
  userMessage :: string
  botMessage :: string
  createdAt :: nat

text \<open>The JSON bodies the handlers send, and a response: its status code and its body.\<close>

datatype body =
    ErrorBody string
  | MessageBody string
  | LoginBody string user
  | CitySavedBody string city
  | CitiesBody "city list"
  | ChatBody string
  | JsonBody json
  | TextBody string
  | FileBody string

record response =
  status :: nat
  body :: body

record request =
  isAuthenticated :: bool
  user :: "user option"
  body_username :: "string option"
  body_password :: "string option"
  body_city :: "string option"
  body_message :: "string option"
  query_city :: "string option"

subsection \<open>Registration and login\<close>

text \<open>
  \<open>UserSchema.pre('save')\<close>: the password is replaced by its salted hash when it was
  modified. \<open>UserSchema.methods.comparePassword\<close> is an \<open>async\<close> function: a call
  returns a promise of the comparison's result. \<open>bcrypt.compare\<close> rejects when it is
  given no candidate.
\<close>

definition pre_save :: "(string \<Rightarrow> nat \<Rightarrow> string) \<Rightarrow> nat \<Rightarrow> bool \<Rightarrow> user \<Rightarrow> user" where
  "pre_save bcrypt_hash salt isModified_password u =
     (if \<not> isModified_password then u
      else u\<lparr>password := bcrypt_hash (password u) salt\<rparr>)"

definition comparePassword ::
    "(string \<Rightarrow> string \<Rightarrow> bool) \<Rightarrow> user \<Rightarrow> string option \<Rightarrow> bool promise" where
  "comparePassword bcrypt_compare u candidatePassword =
     Promise (case candidatePassword of
                None \<Rightarrow> Rejected ArgumentError
              | Some c \<Rightarrow> Fulfilled (bcrypt_compare c (password u)))"

text \<open>
  \<open>User.findOne({ username })\<close>: the first stored user of that name; no user is found
  for a request without a username, since every stored user has one.
\<close>

definition User_findOne :: "user list \<Rightarrow> string option \<Rightarrow> user option" where
  "User_findOne users uname =
     (case uname of
        None \<Rightarrow> None
      | Some n \<Rightarrow> find (\<lambda>u. username u = n) users)"

text \<open>
  \<open>POST /register\<close> (lines 125 to 135). The handler answers and creates no document:
  the collection it returns is the one it was given.
\<close>

definition register :: "user list \<Rightarrow> request \<Rightarrow> response \<times> user list" where
  "register users req =
     (if falsy (body_username req) \<or> falsy (body_password req)
      then (\<lparr>status = 400, body = ErrorBody ''Missing fields''\<rparr>, users)
      else (\<lparr>status = 201, body = MessageBody ''User registered successfully''\<rparr>, users))"

text \<open>
  \<open>POST /login\<close> (lines 137 to 151). The condition is
  \<open>!user || !user.comparePassword(password)\<close>: the promise is negated, not its result.
  The handler sets up no session. (The route has an earlier handler at line 44, built
  from \<open>passport.authenticate('local')\<close>, whose strategy is configured in another
  file.)
\<close>

definition login :: "(string \<Rightarrow> string \<Rightarrow> bool) \<Rightarrow> user list \<Rightarrow> request \<Rightarrow> response" where
  "login bcrypt_compare users req =
     (case User_findOne users (body_username req) of
        None \<Rightarrow> \<lparr>status = 401, body = ErrorBody ''Invalid credentials''\<rparr>
      | Some u \<Rightarrow>
          if js_not_promise (comparePassword bcrypt_compare u (body_password req))
          then \<lparr>status = 401, body = ErrorBody ''Invalid credentials''\<rparr>
          else \<lparr>status = 200, body = LoginBody ''Login successful'' u\<rparr>)"

subsection \<open>Saved cities\<close>

text \<open>
  \<open>City.findOne({ name, userId })\<close> and \<open>City.find({ userId })\<close> match by equality.
  \<open>save\<close> validates the document against \<open>CitySchema\<close> and inserts it; the schema
  requires a name (a required string must not be empty) and declares no index, so an
  insert is never refused for a duplicate.
\<close>

definition City_findOne :: "city list \<Rightarrow> string \<Rightarrow> nat \<Rightarrow> city option" where
  "City_findOne cities n u = find (\<lambda>c. name c = n \<and> userId c = u) cities"

definition City_find :: "city list \<Rightarrow> nat \<Rightarrow> city list" where
  "City_find cities u = filter (\<lambda>c. userId c = u) cities"

definition City_save :: "city list \<Rightarrow> city \<Rightarrow> error + city list" where
  "City_save cities c = (if name c = [] then Inl ValidationError else Inr (cities @ [c]))"

text \<open>
  \<open>POST /cities\<close> (lines 154 to 177), when no other request touches the collection
  between the query of line 164 and the insert of line 171.
\<close>

definition saveCity :: "city list \<Rightarrow> request \<Rightarrow> response \<times> city list" where
  "saveCity cities req =
     (if \<not> isAuthenticated req
      then (\<lparr>status = 401, body = ErrorBody ''You must be logged in''\<rparr>, cities)
      else case user req of
        None \<Rightarrow> (\<lparr>status = 401, body = ErrorBody ''You must be logged in''\<rparr>, cities)
      | Some u \<Rightarrow>
          (case body_city req of
             None \<Rightarrow> (\<lparr>status = 400, body = ErrorBody ''City name required''\<rparr>, cities)
           | Some c \<Rightarrow>
               if c = []
               then (\<lparr>status = 400, body = ErrorBody ''City name required''\<rparr>, cities)
               else case City_findOne cities c (uid u) of
                 Some existingCity \<Rightarrow>
                   (\<lparr>status = 400, body = ErrorBody ''City already saved''\<rparr>, cities)
               | None \<Rightarrow>
                   (case City_save cities \<lparr>name = c, userId = uid u\<rparr> of
                      Inl e \<Rightarrow>
                        (\<lparr>status = 500, body = ErrorBody ''Error saving city''\<rparr>, cities)
                    | Inr cities' \<Rightarrow>
                        (\<lparr>status = 201,
                          body = CitySavedBody ''City saved'' \<lparr>name = c, userId = uid u\<rparr>\<rparr>,
                         cities'))))"

text \<open>\<open>GET /cities\<close> (lines 180 to 192).\<close>

definition listCities :: "city list \<Rightarrow> request \<Rightarrow> response" where
  "listCities cities req =
     (if \<not> isAuthenticated req
      then \<lparr>status = 401, body = ErrorBody ''Not authenticated''\<rparr>
      else case user req of
        None \<Rightarrow> \<lparr>status = 401, body = ErrorBody ''Not authenticated''\<rparr>
      | Some u \<Rightarrow> \<lparr>status = 200, body = CitiesBody (City_find cities (uid u))\<rparr>)"







definition stored :: "city list \<Rightarrow> string \<Rightarrow> nat \<Rightarrow> city list" where
  "stored cities n u = filter (\<lambda>c. name c = n \<and> userId c = u) cities"

subsection \<open>Chat relay\<close>

record completion_request =
  model :: string
  messages :: "(string \<times> string) list"

text \<open>
  \<open>chat.save()\<close> validates against \<open>ChatSchema\<close>, whose two messages are required
  strings, and appends the document.
\<close>

definition Chat_save :: "chat list \<Rightarrow> chat \<Rightarrow> error + chat list" where
  "Chat_save chats c =
     (if userMessage c = [] then Inl ValidationError
      else if botMessage c = [] then Inl ValidationError
      else Inr (chats @ [c]))"

text \<open>Lines 219 to 223: the check of the response, then \<open>aiResponse.choices[0].message.content.trim()\<close>.\<close>

definition read_reply :: "json \<Rightarrow> error + string" where
  "read_reply aiResponse =
     (if \<not> js_truthy aiResponse then Inl InvalidAIResponse
      else case get_prop aiResponse ''choices'' of
        Inl e \<Rightarrow> Inl e
      | Inr choices \<Rightarrow>
          if \<not> js_truthy choices then Inl InvalidAIResponse
          else case get_index0 choices of
            Inl e \<Rightarrow> Inl e
          | Inr choice \<Rightarrow>
              (case get_prop choice ''message'' of
                 Inl e \<Rightarrow> Inl e
               | Inr message \<Rightarrow>
                   (case get_prop message ''content'' of
                      Inl e \<Rightarrow> Inl e
                    | Inr content \<Rightarrow> call_trim content)))"

text \<open>The body of the \<open>try\<close> block after the empty-message check (lines 213 to 229).\<close>

definition chat_try ::
    "(completion_request \<Rightarrow> json settled) \<Rightarrow> nat \<Rightarrow> chat list \<Rightarrow> string
      \<Rightarrow> error + (response \<times> chat list)" where
  "chat_try create now chats userMsg =
     (case create \<lparr>model = ''gpt-3.5-turbo'', messages = [(''user'', userMsg)]\<rparr> of
        Rejected e \<Rightarrow> Inl e
      | Fulfilled aiResponse \<Rightarrow>
          (case read_reply aiResponse of
             Inl e \<Rightarrow> Inl e
           | Inr botMsg \<Rightarrow>
               (case Chat_save chats
                       \<lparr>userMessage = userMsg, botMessage = botMsg, createdAt = now\<rparr> of
                  Inl e \<Rightarrow> Inl e
                | Inr chats' \<Rightarrow>
                    Inr (\<lparr>status = 200, body = ChatBody botMsg\<rparr>, chats'))))"

definition apology :: string where
  "apology = ''I'm having trouble thinking right now. Try again later.''"

text \<open>
  \<open>POST /chat\<close> (lines 208 to 235). \<open>create\<close> is what
  \<open>await openai.chat.completions.create(...)\<close> settles to for a request, and \<open>now\<close> the
  value of \<open>Date.now\<close> that the schema gives \<open>createdAt\<close> by default.
\<close>

definition chat ::
    "(completion_request \<Rightarrow> json settled) \<Rightarrow> nat \<Rightarrow> chat list \<Rightarrow> request
      \<Rightarrow> response \<times> chat list" where
  "chat create now chats req =
     (case body_message req of
        None \<Rightarrow> (\<lparr>status = 200, body = ChatBody ''Please type something.''\<rparr>, chats)
      | Some userMsg \<Rightarrow>
          if userMsg = []
          then (\<lparr>status = 200, body = ChatBody ''Please type something.''\<rparr>, chats)
          else case chat_try create now chats userMsg of
            Inl e \<Rightarrow> (\<lparr>status = 200, body = ChatBody apology\<rparr>, chats)
          | Inr r \<Rightarrow> r)"

text \<open>
  The reply text of a completion response of the documented shape: an object whose
  \<open>choices\<close> is an array, the first choice an object whose \<open>message\<close> is an object with
  a string \<open>content\<close>.
\<close>

fun completion_content :: "json \<Rightarrow> string option" where
  "completion_content (JObj fs) =
     (case map_of fs ''choices'' of
        Some (JArr (JObj cf # rest)) \<Rightarrow>
          (case map_of cf ''message'' of
             Some (JObj mf) \<Rightarrow>
               (case map_of mf ''content'' of Some (JStr s) \<Rightarrow> Some s | _ \<Rightarrow> None)
           | _ \<Rightarrow> None)
      | _ \<Rightarrow> None)"
| "completion_content _ = None"

text \<open>
  The upstream call failed: it threw, or the handler could read no reply from what it
  returned.
\<close>

definition upstream_failed :: "json settled \<Rightarrow> bool" where
  "upstream_failed r =
     (case r of
        Rejected e \<Rightarrow> True
      | Fulfilled aiResponse \<Rightarrow>
          (case read_reply aiResponse of Inl e \<Rightarrow> True | Inr s \<Rightarrow> False))"

subsection \<open>Weather proxy\<close>

text \<open>
  What a handler does with a request: it sends a response, or an error leaves the
  \<open>async\<close> handler uncaught, its promise rejects and nothing is sent.
\<close>

datatype outcome = Responded response | Unhandled error

definition weather_url :: "string \<Rightarrow> string \<Rightarrow> string" where
  "weather_url city key =
     ''https://api.openweathermap.org/data/2.5/weather?q='' @ city @ ''&appid='' @ key
       @ ''&units=metric''"

text \<open>
  The first \<open>GET /api/weather\<close> handler (lines 48 to 64). \<open>axios_get url\<close> is what
  \<open>await axios.get(url)\<close> settles to: the \<open>data\<close> of the response, or a rejection.
\<close>

definition getWeather ::
    "string option \<Rightarrow> (string \<Rightarrow> json settled) \<Rightarrow> request \<Rightarrow> outcome" where
  "getWeather OPENWEATHER_API_KEY axios_get req =
     (case query_city req of
        None \<Rightarrow> Responded \<lparr>status = 400, body = ErrorBody ''City is required''\<rparr>
      | Some city \<Rightarrow>
          if city = []
          then Responded \<lparr>status = 400, body = ErrorBody ''City is required''\<rparr>
          else case OPENWEATHER_API_KEY of
            None \<Rightarrow> Responded \<lparr>status = 500, body = ErrorBody ''API key is missing''\<rparr>
          | Some key \<Rightarrow>
              if key = []
              then Responded \<lparr>status = 500, body = ErrorBody ''API key is missing''\<rparr>
              else case axios_get (weather_url city key) of
                Rejected e \<Rightarrow>
                  Responded
                    \<lparr>status = 500, body = ErrorBody ''Failed to fetch weather data''\<rparr>
              | Fulfilled data \<Rightarrow> Responded \<lparr>status = 200, body = JsonBody data\<rparr>)"

text \<open>
  \<open>axios.get\<close> as the handler calls it, with the defaults of the library: the promise
  rejects on a network error and on a status outside 200 to 299; otherwise it fulfils,
  and the \<open>data\<close> of the response are the parsed body when the body is JSON and the
  text of the body when it is not.
\<close>

datatype http_body = JsonText json | OtherText string

datatype http_result = NetworkError | HttpResponse nat http_body

definition axios_default :: "(string \<Rightarrow> http_result) \<Rightarrow> string \<Rightarrow> json settled" where
  "axios_default upstream url =
     (case upstream url of
        NetworkError \<Rightarrow> Rejected UpstreamError
      | HttpResponse code content \<Rightarrow>
          if 200 \<le> code \<and> code < 300
          then Fulfilled (case content of JsonText v \<Rightarrow> v | OtherText t \<Rightarrow> JStr t)
          else Rejected UpstreamError)"

text \<open>
  The second \<open>GET /api/weather\<close> handler (lines 242 to 257). Its URL is built before
  the \<open>try\<close> block, from the identifier \<open>API_KEY\<close>: \<open>None\<close> when no binding of that
  name is in scope, and reading it is then a \<open>ReferenceError\<close>. \<open>fetch url\<close> is what
  \<open>await fetch(url)\<close> settles to, a response whose \<open>json()\<close> settles in turn.
\<close>

definition getWeather_second ::
    "string option \<Rightarrow> (string \<Rightarrow> json settled settled) \<Rightarrow> request \<Rightarrow> outcome" where
  "getWeather_second API_KEY fetch req =
     (case query_city req of
        None \<Rightarrow> Responded \<lparr>status = 400, body = ErrorBody ''City name required''\<rparr>
      | Some city \<Rightarrow>
          if city = []
          then Responded \<lparr>status = 400, body = ErrorBody ''City name required''\<rparr>
          else case API_KEY of
            None \<Rightarrow> Unhandled ReferenceError
          | Some k \<Rightarrow>
              (case fetch (weather_url city k) of
                 Rejected e \<Rightarrow>
                   Responded \<lparr>status = 500, body = ErrorBody ''Failed to fetch weather data''\<rparr>
               | Fulfilled response_json \<Rightarrow>
                   (case response_json of
                      Rejected e \<Rightarrow>
                        Responded
                          \<lparr>status = 500, body = ErrorBody ''Failed to fetch weather data''\<rparr>
                    | Fulfilled data \<Rightarrow> Responded \<lparr>status = 200, body = JsonBody data\<rparr>)))"

text \<open>\<open>server.js\<close> declares and imports no identifier \<open>API_KEY\<close>.\<close>

definition server_API_KEY :: "string option" where
  "server_API_KEY = None"

text \<open>
  Express calls the handlers registered for a method and path in the order of their
  registration, the next one only when the one before calls \<open>next()\<close>. No handler of
  \<open>GET /api/weather\<close> or \<open>POST /login\<close> passes a request on with \<open>next()\<close>, so the
  first one registered is the one that runs.
\<close>

fun dispatch :: "('q \<Rightarrow> 'r) list \<Rightarrow> 'q \<Rightarrow> 'r option" where
  "dispatch [] req = None"
| "dispatch (handler # later) req = Some (handler req)"

definition api_weather ::
    "string option \<Rightarrow> (string \<Rightarrow> json settled) \<Rightarrow> string option
      \<Rightarrow> (string \<Rightarrow> json settled settled) \<Rightarrow> request \<Rightarrow> outcome option" where
  "api_weather OPENWEATHER_API_KEY axios_get API_KEY fetch =
     dispatch [getWeather OPENWEATHER_API_KEY axios_get, getWeather_second API_KEY fetch]"

subsection \<open>Error middleware, video files and login through passport\<close>

text \<open>
  Lines 260 to 263: the error middleware, which Express calls with an error that a
  handler throws while it runs or passes to \<open>next\<close>.
\<close>

definition error_middleware :: "error \<Rightarrow> response" where
  "error_middleware err = \<lparr>status = 500, body = ErrorBody ''Something went wrong''\<rparr>"






text \<open>
  Modelled from the spec: the local strategy that \<open>config/passport.js\<close> registers with
  passport; the file is not among the sources. The spec (section 4.1) says of login
  that it "looks up the user by username; fails with AuthError (401) if absent or if
  the hash comparison fails; on success returns the user record".
\<close>

definition local_strategy ::
    "(string \<Rightarrow> string \<Rightarrow> bool) \<Rightarrow> user list \<Rightarrow> request \<Rightarrow> user option settled" where
  "local_strategy bcrypt_compare users req =
     Fulfilled
       (case User_findOne users (body_username req) of
          None \<Rightarrow> None
        | Some u \<Rightarrow>
            (case body_password req of
               None \<Rightarrow> None
             | Some p \<Rightarrow> if bcrypt_compare p (password u) then Some u else None))"

text \<open>
  \<open>POST /login\<close> as line 44 registers it: \<open>passport.authenticate('local')\<close> runs the
  strategy. An error of the strategy goes to the error middleware; when the strategy
  fails, passport answers 401 itself and the session stays as it was; when it succeeds,
  passport logs the user in to the session and the callback of lines 44 to 46 answers
  (its message begins with a check mark, a character outside the strings of this
  model). The session is given and returned as the user logged in, if any.
\<close>

definition passport_login ::
    "(request \<Rightarrow> user option settled) \<Rightarrow> user option \<Rightarrow> request
      \<Rightarrow> outcome \<times> user option" where
  "passport_login strategy session req =
     (case strategy req of
        Rejected err \<Rightarrow> (Responded (error_middleware err), session)
      | Fulfilled verdict \<Rightarrow>
          (case verdict of
             None \<Rightarrow> (Responded \<lparr>status = 401, body = TextBody ''Unauthorized''\<rparr>, session)
           | Some u \<Rightarrow>
               (Responded \<lparr>status = 200, body = MessageBody ''Login successful!''\<rparr>,
                Some u)))"

text \<open>The two handlers of \<open>POST /login\<close>, in the order of lines 44 and 137.\<close>

definition post_login ::
    "(user list \<Rightarrow> request \<Rightarrow> user option settled) \<Rightarrow> (string \<Rightarrow> string \<Rightarrow> bool)
      \<Rightarrow> user list \<Rightarrow> user option \<Rightarrow> request \<Rightarrow> (outcome \<times> user option) option" where
  "post_login strategy bcrypt_compare users session =
     dispatch [passport_login (strategy users) session,
               (\<lambda>req. (Responded (login bcrypt_compare users req), session))]"

subsection \<open>The application\<close>






subsection \<open>Startup check\<close>



subsection \<open>Sample requests and responses\<close>

text \<open>
  A request of a client that is not logged in and sends no field, a registered user,
  and a completion response of the shape the completion API documents.
\<close>

definition anonymous :: request where
  "anonymous =
     \<lparr>isAuthenticated = False, user = None, body_username = None, body_password = None,
      body_city = None, body_message = None, query_city = None\<rparr>"

definition alice :: user where
  "alice = \<lparr>uid = 1, username = ''alice'', password = ''$2b$10$storedhashofsecret''\<rparr>"

text \<open>
  A remote service that settles every call to the same result, the two extreme
  password comparisons, and one under which \<open>secret\<close> is the password of \<open>alice\<close>.
\<close>

definition sample_compare :: "string \<Rightarrow> string \<Rightarrow> bool" where
  "sample_compare candidate hash = (hash = ''$2b$10$storedhashof'' @ candidate)"

definition settles_to :: "'r \<Rightarrow> 'q \<Rightarrow> 'r" where
  "settles_to r q = r"

definition rejects_all :: "string \<Rightarrow> string \<Rightarrow> bool" where
  "rejects_all candidate hash = False"

definition accepts_all :: "string \<Rightarrow> string \<Rightarrow> bool" where
  "accepts_all candidate hash = True"

definition completion :: "string \<Rightarrow> json" where
  "completion s =
     JObj [(''id'', JStr ''chatcmpl-1''),
           (''object'', JStr ''chat.completion''),
           (''choices'',
            JArr [JObj [(''index'', JNum 0),
                        (''message'',
                         JObj [(''role'', JStr ''assistant''), (''content'', JStr s)]),
                        (''finish_reason'', JStr ''stop'')]])]"



section \<open>Properties\<close>

subsection \<open>Registration and login\<close>

lemma register_keeps_users: "snd (register users req) = users"
  by (simp add: register_def)

lemma pre_save_hashes:
  "password (pre_save bcrypt_hash salt True u) = bcrypt_hash (password u) salt"
  by (simp add: pre_save_def)

text \<open>
  The handler of lines 137 to 151, which the route reaches only if the handler of line
  44 passes the request on: it answers 401 to an unknown username, and 200 with the
  stored record to a known one whatever the comparison of the passwords gives.
\<close>

lemma login_unknown_user:
  "User_findOne users (body_username req) = None \<Longrightarrow>
   login bcrypt_compare users req = \<lparr>status = 401, body = ErrorBody ''Invalid credentials''\<rparr>"
  by (simp add: login_def)

lemma login_known_user:
  "User_findOne users (body_username req) = Some u \<Longrightarrow>
   login bcrypt_compare users req = \<lparr>status = 200, body = LoginBody ''Login successful'' u\<rparr>"
  by (simp add: login_def js_not_promise_def)

text \<open>
  C1. A login with an unknown username or a wrong password is answered 401 and sets up
  no session: the session is the one the request came with. The strategy looks the user
  up by username, and gives the user record exactly when the user is stored and the
  comparison of the submitted password with the stored hash succeeds.
\<close>

theorem login_invalid_rejected:
  "(User_findOne users (body_username req) = None
      \<or> (\<exists>u p. User_findOne users (body_username req) = Some u \<and> body_password req = Some p
              \<and> \<not> bcrypt_compare p (password u))
    \<longrightarrow> post_login (local_strategy bcrypt_compare) bcrypt_compare users session req
          = Some (Responded \<lparr>status = 401, body = TextBody ''Unauthorized''\<rparr>, session))
   \<and> (\<forall>u. local_strategy bcrypt_compare users req = Fulfilled (Some u)
          \<longleftrightarrow> User_findOne users (body_username req) = Some u
              \<and> (\<exists>p. body_password req = Some p \<and> bcrypt_compare p (password u)))"
  by (auto simp: post_login_def passport_login_def local_strategy_def split: option.splits)

theorem login_invalid_rejected_witness:
  "post_login (local_strategy sample_compare) sample_compare [alice] None
       (anonymous\<lparr>body_username := Some ''alice'', body_password := Some ''wrong''\<rparr>)
     = Some (Responded \<lparr>status = 401, body = TextBody ''Unauthorized''\<rparr>, None)
   \<and> post_login (local_strategy sample_compare) sample_compare [alice] None
       (anonymous\<lparr>body_username := Some ''bob'', body_password := Some ''secret''\<rparr>)
     = Some (Responded \<lparr>status = 401, body = TextBody ''Unauthorized''\<rparr>, None)
   \<and> local_strategy sample_compare [alice]
       (anonymous\<lparr>body_username := Some ''alice'', body_password := Some ''secret''\<rparr>)
     = Fulfilled (Some alice)"
proof -
  let ?wrong = "anonymous\<lparr>body_username := Some ''alice'', body_password := Some ''wrong''\<rparr>"
  let ?bob = "anonymous\<lparr>body_username := Some ''bob'', body_password := Some ''secret''\<rparr>"
  let ?right = "anonymous\<lparr>body_username := Some ''alice'', body_password := Some ''secret''\<rparr>"
  have w: "User_findOne [alice] (body_username ?wrong) = Some alice"
    "body_password ?wrong = Some ''wrong''" "\<not> sample_compare ''wrong'' (password alice)"
    by (simp_all add: User_findOne_def anonymous_def alice_def sample_compare_def)
  have b: "User_findOne [alice] (body_username ?bob) = None"
    by (simp add: User_findOne_def anonymous_def alice_def)
  have r: "User_findOne [alice] (body_username ?right) = Some alice"
    "body_password ?right = Some ''secret''" "sample_compare ''secret'' (password alice)"
    by (simp_all add: User_findOne_def anonymous_def alice_def sample_compare_def)
  from login_invalid_rejected [where bcrypt_compare = sample_compare and users = "[alice]"
      and req = ?wrong and session = None] w
  have 1: "post_login (local_strategy sample_compare) sample_compare [alice] None ?wrong
     = Some (Responded \<lparr>status = 401, body = TextBody ''Unauthorized''\<rparr>, None)" by blast
  from login_invalid_rejected [where bcrypt_compare = sample_compare and users = "[alice]"
      and req = ?bob and session = None] b
  have 2: "post_login (local_strategy sample_compare) sample_compare [alice] None ?bob
     = Some (Responded \<lparr>status = 401, body = TextBody ''Unauthorized''\<rparr>, None)" by blast
  from login_invalid_rejected [where bcrypt_compare = sample_compare and users = "[alice]"
      and req = ?right and session = None] r
  have 3: "local_strategy sample_compare [alice] ?right = Fulfilled (Some alice)" by blast
  from 1 2 3 show ?thesis by simp
qed

text \<open>
  C2. Registering and then logging in with the same credentials succeeds. The handler
  answers 201 to the registration and stores no user: on an empty collection the login
  that follows is answered 401, even with a comparison that accepts every candidate.
\<close>

theorem register_then_login_rejected:
  "register [] (anonymous\<lparr>body_username := Some ''alice'', body_password := Some ''secret''\<rparr>)
     = (\<lparr>status = 201, body = MessageBody ''User registered successfully''\<rparr>, [])
   \<and> login accepts_all []
       (anonymous\<lparr>body_username := Some ''alice'', body_password := Some ''secret''\<rparr>)
     = \<lparr>status = 401, body = ErrorBody ''Invalid credentials''\<rparr>"
  by (simp add: register_def falsy_def anonymous_def login_def User_findOne_def)

subsection \<open>Saved cities\<close>

lemma City_findOne_None:
  "City_findOne cities n u = None \<longleftrightarrow> (n, u) \<notin> set (map (\<lambda>c. (name c, userId c)) cities)"
  by (auto simp: City_findOne_def find_None_iff)





lemma saveCity_fresh:
  "isAuthenticated req \<Longrightarrow> user req = Some u \<Longrightarrow> body_city req = Some c \<Longrightarrow> c \<noteq> [] \<Longrightarrow>
   (c, uid u) \<notin> set (map (\<lambda>c. (name c, userId c)) cities) \<Longrightarrow>
   saveCity cities req =
     (\<lparr>status = 201, body = CitySavedBody ''City saved'' \<lparr>name = c, userId = uid u\<rparr>\<rparr>,
      cities @ [\<lparr>name = c, userId = uid u\<rparr>])"
  using City_findOne_None [of cities c "uid u"]
  by (auto simp: saveCity_def City_save_def split: option.splits)









text \<open>
  C8. The list a logged-in user \<open>A\<close> receives holds the stored cities whose owner is
  \<open>A\<close> and no city whose owner is another user \<open>B\<close>.
\<close>

theorem listCities_only_own:
  assumes "isAuthenticated req" and "user req = Some A"
  shows "\<exists>cs. listCities cities req = \<lparr>status = 200, body = CitiesBody cs\<rparr>
    \<and> set cs = {c \<in> set cities. userId c = uid A}
    \<and> (\<forall>c \<in> set cs. userId c = uid A)
    \<and> (\<forall>B c. uid B \<noteq> uid A \<longrightarrow> c \<in> set cities \<longrightarrow> userId c = uid B \<longrightarrow> c \<notin> set cs)"
  using assms by (auto simp: listCities_def City_find_def)

theorem listCities_only_own_witness:
  "listCities [\<lparr>name = ''London'', userId = 1\<rparr>, \<lparr>name = ''Paris'', userId = 2\<rparr>,
               \<lparr>name = ''Oslo'', userId = 1\<rparr>]
     (anonymous\<lparr>isAuthenticated := True, user := Some alice\<rparr>)
   = \<lparr>status = 200,
      body = CitiesBody [\<lparr>name = ''London'', userId = 1\<rparr>, \<lparr>name = ''Oslo'', userId = 1\<rparr>]\<rparr>"
proof -
  let ?req = "anonymous\<lparr>isAuthenticated := True, user := Some alice\<rparr>"
  let ?db = "[\<lparr>name = ''London'', userId = 1\<rparr>, \<lparr>name = ''Paris'', userId = 2\<rparr>,
               \<lparr>name = ''Oslo'', userId = 1::nat\<rparr>]"
  have a: "isAuthenticated ?req" "user ?req = Some alice" by (simp_all add: anonymous_def)
  from listCities_only_own [OF a, of ?db]
  obtain cs where "listCities ?db ?req = \<lparr>status = 200, body = CitiesBody cs\<rparr>" by blast
  moreover have "listCities ?db ?req = \<lparr>status = 200,
      body = CitiesBody [\<lparr>name = ''London'', userId = 1\<rparr>, \<lparr>name = ''Oslo'', userId = 1\<rparr>]\<rparr>"
    by (simp add: listCities_def City_find_def anonymous_def alice_def)
  ultimately show ?thesis by simp
qed

text \<open>
  C10. The duplicate check compares names by equality: two different non-empty names
  that the user has not stored, such as \<open>London\<close> and \<open>london\<close>, are both accepted
  and stored; and the insert itself refuses no duplicate, the check of the handler is
  the only one.
\<close>

theorem saveCity_exact_match:
  assumes "isAuthenticated req" and "user req = Some u"
    and "c1 \<noteq> []" and "c2 \<noteq> []" and "c1 \<noteq> c2"
    and "stored cities c1 (uid u) = []" and "stored cities c2 (uid u) = []"
  shows "saveCity cities (req\<lparr>body_city := Some c1\<rparr>)
      = (\<lparr>status = 201, body = CitySavedBody ''City saved'' \<lparr>name = c1, userId = uid u\<rparr>\<rparr>,
         cities @ [\<lparr>name = c1, userId = uid u\<rparr>])
    \<and> saveCity (cities @ [\<lparr>name = c1, userId = uid u\<rparr>]) (req\<lparr>body_city := Some c2\<rparr>)
      = (\<lparr>status = 201, body = CitySavedBody ''City saved'' \<lparr>name = c2, userId = uid u\<rparr>\<rparr>,
         cities @ [\<lparr>name = c1, userId = uid u\<rparr>, \<lparr>name = c2, userId = uid u\<rparr>])
    \<and> City_save cities' \<lparr>name = c1, userId = uid u\<rparr>
      = Inr (cities' @ [\<lparr>name = c1, userId = uid u\<rparr>])"
proof -
  have f1: "(c1, uid u) \<notin> set (map (\<lambda>c. (name c, userId c)) cities)"
    using assms(6) by (auto simp: stored_def filter_empty_conv)
  have f2: "(c2, uid u) \<notin> set (map (\<lambda>c. (name c, userId c)) (cities @ [\<lparr>name = c1, userId = uid u\<rparr>]))"
    using assms(5,7) by (auto simp: stored_def filter_empty_conv)
  have s1: "saveCity cities (req\<lparr>body_city := Some c1\<rparr>)
      = (\<lparr>status = 201, body = CitySavedBody ''City saved'' \<lparr>name = c1, userId = uid u\<rparr>\<rparr>,
         cities @ [\<lparr>name = c1, userId = uid u\<rparr>])"
    using assms(1-3) f1 by (intro saveCity_fresh) simp_all
  have s2: "saveCity (cities @ [\<lparr>name = c1, userId = uid u\<rparr>]) (req\<lparr>body_city := Some c2\<rparr>)
      = (\<lparr>status = 201, body = CitySavedBody ''City saved'' \<lparr>name = c2, userId = uid u\<rparr>\<rparr>,
         (cities @ [\<lparr>name = c1, userId = uid u\<rparr>]) @ [\<lparr>name = c2, userId = uid u\<rparr>])"
    using assms(1,2,4) f2 by (intro saveCity_fresh) simp_all
  from s1 s2 assms(3) show ?thesis by (simp add: City_save_def)
qed

theorem saveCity_exact_match_witness:
  "saveCity [] (anonymous\<lparr>isAuthenticated := True, user := Some alice, body_city := Some ''London''\<rparr>)
      = (\<lparr>status = 201, body = CitySavedBody ''City saved'' \<lparr>name = ''London'', userId = 1\<rparr>\<rparr>,
         [\<lparr>name = ''London'', userId = 1\<rparr>])
   \<and> saveCity [\<lparr>name = ''London'', userId = 1\<rparr>]
        (anonymous\<lparr>isAuthenticated := True, user := Some alice, body_city := Some ''london''\<rparr>)
      = (\<lparr>status = 201, body = CitySavedBody ''City saved'' \<lparr>name = ''london'', userId = 1\<rparr>\<rparr>,
         [\<lparr>name = ''London'', userId = 1\<rparr>, \<lparr>name = ''london'', userId = 1\<rparr>])
   \<and> saveCity [\<lparr>name = ''London'', userId = 1\<rparr>]
        (anonymous\<lparr>isAuthenticated := True, user := Some alice, body_city := Some '' London ''\<rparr>)
      = (\<lparr>status = 201, body = CitySavedBody ''City saved'' \<lparr>name = '' London '', userId = 1\<rparr>\<rparr>,
         [\<lparr>name = ''London'', userId = 1\<rparr>, \<lparr>name = '' London '', userId = 1\<rparr>])
   \<and> City_save [\<lparr>name = ''London'', userId = 1\<rparr>] \<lparr>name = ''London'', userId = 1\<rparr>
      = Inr [\<lparr>name = ''London'', userId = 1\<rparr>, \<lparr>name = ''London'', userId = 1\<rparr>]"
proof -
  let ?req = "anonymous\<lparr>isAuthenticated := True, user := Some alice\<rparr>"
  have a: "isAuthenticated ?req" "user ?req = Some alice" by (simp_all add: anonymous_def)
  have n: "''London'' \<noteq> []" "''london'' \<noteq> []" "''London'' \<noteq> ''london''" by simp_all
  have w: "''London'' \<noteq> []" "'' London '' \<noteq> []" "''London'' \<noteq> '' London ''" by simp_all
  have e: "stored [] ''London'' (uid alice) = []" "stored [] ''london'' (uid alice) = []"
    by (simp_all add: stored_def)
  have f: "stored [] ''London'' (uid alice) = []" "stored [] '' London '' (uid alice) = []"
    by (simp_all add: stored_def)
  from saveCity_exact_match [OF a n e, of "[\<lparr>name = ''London'', userId = 1\<rparr>]"]
    saveCity_exact_match [OF a w f, of "[]"]
  show ?thesis by (simp add: alice_def)
qed

subsection \<open>Chat relay\<close>

text \<open>
  On a response of the documented shape the handler reads the trimmed content. A
  response of another shape is a failure, unless its \<open>choices\<close> is an object (which
  \<open>choices[0]\<close> reads by its property \<open>0\<close>).
\<close>

lemma read_reply_documented:
  "completion_content aiResponse = Some s \<Longrightarrow> read_reply aiResponse = Inr (trim s)"
  by (cases aiResponse)
     (auto simp: read_reply_def split: option.splits json.splits list.splits)

lemma upstream_failed_thrown: "upstream_failed (Rejected e)"
  by (simp add: upstream_failed_def)

lemma upstream_failed_absent:
  "upstream_failed (Fulfilled JUndefined)" "upstream_failed (Fulfilled JNull)"
  by (simp_all add: upstream_failed_def read_reply_def)

lemma upstream_failed_no_choices:
  "map_of fs ''choices'' = None \<Longrightarrow> upstream_failed (Fulfilled (JObj fs))"
  by (simp add: upstream_failed_def read_reply_def)

lemma upstream_failed_malformed:
  assumes "completion_content aiResponse = None"
    and "\<And>fs cf. aiResponse = JObj fs \<Longrightarrow> map_of fs ''choices'' \<noteq> Some (JObj cf)"
  shows "upstream_failed (Fulfilled aiResponse)"
  using assms
  by (cases aiResponse)
     (auto simp: upstream_failed_def read_reply_def
           split: option.splits json.splits list.splits sum.splits)

text \<open>
  C7. A chat request whose message is missing or empty is answered 200 with
  \<open>Please type something.\<close>, and the Chat collection is unchanged.
\<close>

theorem chat_empty_message:
  "falsy (body_message req) \<Longrightarrow>
   chat create now chats req
     = (\<lparr>status = 200, body = ChatBody ''Please type something.''\<rparr>, chats)"
  by (auto simp: chat_def falsy_def split: option.splits)

theorem chat_empty_message_witness:
  "chat (settles_to (Fulfilled (completion ''Hello!''))) 5
        [\<lparr>userMessage = ''hi'', botMessage = ''Hello!'', createdAt = 4\<rparr>]
        (anonymous\<lparr>body_message := Some ''''\<rparr>)
     = (\<lparr>status = 200, body = ChatBody ''Please type something.''\<rparr>,
        [\<lparr>userMessage = ''hi'', botMessage = ''Hello!'', createdAt = 4\<rparr>])
   \<and> chat (settles_to (Fulfilled (completion ''Hello!''))) 5 [] anonymous
     = (\<lparr>status = 200, body = ChatBody ''Please type something.''\<rparr>, [])"
proof -
  have e: "falsy (body_message (anonymous\<lparr>body_message := Some ''''\<rparr>))"
    and n: "falsy (body_message anonymous)"
    by (simp_all add: falsy_def anonymous_def)
  from chat_empty_message [OF e] chat_empty_message [OF n] show ?thesis by simp
qed

text \<open>
  C5. For a non-empty message, when the completion call throws or returns a response
  the handler can read no reply from, the answer is 200 with the apology, and the Chat
  collection is unchanged.
\<close>

theorem chat_upstream_failure_apology:
  assumes "body_message req = Some m" and "m \<noteq> []"
    and "upstream_failed (create \<lparr>model = ''gpt-3.5-turbo'', messages = [(''user'', m)]\<rparr>)"
  shows "chat create now chats req = (\<lparr>status = 200, body = ChatBody apology\<rparr>, chats)"
  using assms
  by (auto simp: chat_def chat_try_def upstream_failed_def split: settled.splits sum.splits)

theorem chat_upstream_failure_apology_witness:
  "chat (settles_to (Rejected UpstreamError)) 5 [] (anonymous\<lparr>body_message := Some ''hi''\<rparr>)
     = (\<lparr>status = 200, body = ChatBody apology\<rparr>, [])
   \<and> chat (settles_to (Fulfilled JNull)) 5 [] (anonymous\<lparr>body_message := Some ''hi''\<rparr>)
     = (\<lparr>status = 200, body = ChatBody apology\<rparr>, [])
   \<and> chat (settles_to (Fulfilled (JObj [(''choices'', JArr [])]))) 5 []
        (anonymous\<lparr>body_message := Some ''hi''\<rparr>)
     = (\<lparr>status = 200, body = ChatBody apology\<rparr>, [])"
proof -
  let ?req = "anonymous\<lparr>body_message := Some ''hi''\<rparr>"
  have m: "body_message ?req = Some ''hi''" "''hi'' \<noteq> []" by (simp_all add: anonymous_def)
  have 1: "upstream_failed (settles_to (Rejected UpstreamError)
             \<lparr>model = ''gpt-3.5-turbo'', messages = [(''user'', ''hi'')]\<rparr>)"
    by (simp add: settles_to_def upstream_failed_def)
  have 2: "upstream_failed (settles_to (Fulfilled JNull)
             \<lparr>model = ''gpt-3.5-turbo'', messages = [(''user'', ''hi'')]\<rparr>)"
    by (simp add: settles_to_def upstream_failed_def read_reply_def)
  have 3: "upstream_failed (settles_to (Fulfilled (JObj [(''choices'', JArr [])]))
             \<lparr>model = ''gpt-3.5-turbo'', messages = [(''user'', ''hi'')]\<rparr>)"
    by (simp add: settles_to_def upstream_failed_def read_reply_def)
  from chat_upstream_failure_apology
         [where create = "settles_to (Rejected UpstreamError)", OF m 1]
       chat_upstream_failure_apology
         [where create = "settles_to (Fulfilled JNull)", OF m 2]
       chat_upstream_failure_apology
         [where create = "settles_to (Fulfilled (JObj [(''choices'', JArr [])]))", OF m 3]
  show ?thesis by simp
qed

text \<open>
  C4, as amended. For a non-empty message and a completion response of the documented
  shape whose reply is not empty once trimmed, the answer is 200 with the trimmed reply,
  and exactly one Chat document is appended, holding the message and the trimmed
  reply.
\<close>

theorem chat_relays_reply:
  assumes "body_message req = Some m" and "m \<noteq> []"
    and "create \<lparr>model = ''gpt-3.5-turbo'', messages = [(''user'', m)]\<rparr> = Fulfilled aiResponse"
    and "completion_content aiResponse = Some s" and "trim s \<noteq> []"
  shows "chat create now chats req
     = (\<lparr>status = 200, body = ChatBody (trim s)\<rparr>,
        chats @ [\<lparr>userMessage = m, botMessage = trim s, createdAt = now\<rparr>])"
  using assms read_reply_documented [OF assms(4)]
  by (simp add: chat_def chat_try_def Chat_save_def)

theorem chat_relays_reply_witness:
  "chat (settles_to (Fulfilled (completion ''  Hello there! ''))) 5
        [\<lparr>userMessage = ''a'', botMessage = ''b'', createdAt = 4\<rparr>]
        (anonymous\<lparr>body_message := Some ''hi''\<rparr>)
     = (\<lparr>status = 200, body = ChatBody ''Hello there!''\<rparr>,
        [\<lparr>userMessage = ''a'', botMessage = ''b'', createdAt = 4\<rparr>,
         \<lparr>userMessage = ''hi'', botMessage = ''Hello there!'', createdAt = 5\<rparr>])"
proof -
  let ?req = "anonymous\<lparr>body_message := Some ''hi''\<rparr>"
  let ?create = "settles_to (Fulfilled (completion ''  Hello there! ''))
                   :: completion_request \<Rightarrow> json settled"
  have m: "body_message ?req = Some ''hi''" "''hi'' \<noteq> []" by (simp_all add: anonymous_def)
  have c: "?create \<lparr>model = ''gpt-3.5-turbo'', messages = [(''user'', ''hi'')]\<rparr>
             = Fulfilled (completion ''  Hello there! '')" by (simp add: settles_to_def)
  have d: "completion_content (completion ''  Hello there! '') = Some ''  Hello there! ''"
    by (simp add: completion_def)
  have t: "trim ''  Hello there! '' = ''Hello there!''"
    by (simp add: trim_def js_whitespace_def)
  then have n: "trim ''  Hello there! '' \<noteq> []" by simp
  from chat_relays_reply [where create = ?create, OF m c d n] t show ?thesis by simp
qed

text \<open>
  C4 as stated fails for a reply of white space only: the trimmed reply is empty,
  \<open>ChatSchema\<close> requires \<open>botMessage\<close>, the save is refused and the handler answers
  with the apology, storing nothing.
\<close>

theorem chat_blank_reply_counterexample:
  "completion_content (completion ''   '') = Some ''   ''
   \<and> chat (settles_to (Fulfilled (completion ''   ''))) 5 []
         (anonymous\<lparr>body_message := Some ''hi''\<rparr>)
       = (\<lparr>status = 200, body = ChatBody apology\<rparr>, [])
   \<and> ChatBody apology \<noteq> ChatBody (trim ''   '')"
  by (simp add: chat_def chat_try_def read_reply_def completion_def Chat_save_def trim_def
      js_whitespace_def anonymous_def apology_def settles_to_def)

subsection \<open>Weather proxy\<close>


lemma api_weather_first:
  "api_weather key axios_get API_KEY fetch req = Some (getWeather key axios_get req)"
  by (simp add: api_weather_def)

lemma weather_url_metric: "suffix ''&units=metric'' (weather_url city key)"
  unfolding weather_url_def suffix_def by (metis append.assoc)

text \<open>
  The second handler, if it were given a request with a city: it reads \<open>API_KEY\<close>
  before its \<open>try\<close> block and the error leaves it. The route never gives it one
  (\<open>api_weather_first\<close>).
\<close>

lemma getWeather_second_unhandled:
  "getWeather_second server_API_KEY fetch (anonymous\<lparr>query_city := Some ''London''\<rparr>)
     = Unhandled ReferenceError"
  by (simp add: getWeather_second_def server_API_KEY_def anonymous_def)

text \<open>
  C6, as amended. A weather request without a city is answered 400; with a city and no
  API key, 500; otherwise the metric-units URL of the current-weather API is requested,
  and on a network error or a status outside 200 to 299 the answer is 500, while the
  body of a response with a status from 200 to 299 is the body of the answer,
  unchanged: the JSON value when the body is JSON, the text of the body when it is
  not.
\<close>

theorem api_weather_relay:
  "(falsy (query_city req) \<longrightarrow>
      api_weather key (axios_default upstream) API_KEY fetch req
        = Some (Responded \<lparr>status = 400, body = ErrorBody ''City is required''\<rparr>))
   \<and> (query_city req = Some c \<and> c \<noteq> [] \<and> falsy key \<longrightarrow>
      api_weather key (axios_default upstream) API_KEY fetch req
        = Some (Responded \<lparr>status = 500, body = ErrorBody ''API key is missing''\<rparr>))
   \<and> (query_city req = Some c \<and> c \<noteq> [] \<and> key = Some k \<and> k \<noteq> [] \<longrightarrow>
      api_weather key (axios_default upstream) API_KEY fetch req
        = Some (Responded
            (case upstream (''https://api.openweathermap.org/data/2.5/weather?q='' @ c
                             @ ''&appid='' @ k @ ''&units=metric'') of
               NetworkError \<Rightarrow>
                 \<lparr>status = 500, body = ErrorBody ''Failed to fetch weather data''\<rparr>
             | HttpResponse code content \<Rightarrow>
                 if code < 200 \<or> 300 \<le> code
                 then \<lparr>status = 500, body = ErrorBody ''Failed to fetch weather data''\<rparr>
                 else (case content of
                         JsonText data \<Rightarrow> \<lparr>status = 200, body = JsonBody data\<rparr>
                       | OtherText text \<Rightarrow> \<lparr>status = 200, body = JsonBody (JStr text)\<rparr>))))"
  by (auto simp: api_weather_def getWeather_def falsy_def weather_url_def axios_default_def
           split: option.splits http_result.splits http_body.splits)

theorem api_weather_relay_witness:
  "api_weather (Some ''k1'') (axios_default (settles_to NetworkError)) server_API_KEY
       (settles_to (Rejected UpstreamError)) anonymous
     = Some (Responded \<lparr>status = 400, body = ErrorBody ''City is required''\<rparr>)
   \<and> api_weather None (axios_default (settles_to NetworkError)) server_API_KEY
       (settles_to (Rejected UpstreamError)) (anonymous\<lparr>query_city := Some ''London''\<rparr>)
     = Some (Responded \<lparr>status = 500, body = ErrorBody ''API key is missing''\<rparr>)
   \<and> api_weather (Some ''k1'')
       (axios_default
          (settles_to (HttpResponse 200 (JsonText (JObj [(''main'', JObj [(''temp'', JNum 12)])])))))
       server_API_KEY (settles_to (Rejected UpstreamError))
       (anonymous\<lparr>query_city := Some ''London''\<rparr>)
     = Some (Responded \<lparr>status = 200,
                        body = JsonBody (JObj [(''main'', JObj [(''temp'', JNum 12)])])\<rparr>)
   \<and> api_weather (Some ''k1'') (axios_default (settles_to NetworkError)) server_API_KEY
       (settles_to (Rejected UpstreamError)) (anonymous\<lparr>query_city := Some ''London''\<rparr>)
     = Some (Responded \<lparr>status = 500, body = ErrorBody ''Failed to fetch weather data''\<rparr>)
   \<and> api_weather (Some ''k1'')
       (axios_default (settles_to (HttpResponse 404 (JsonText (JObj [(''cod'', JStr ''404'')])))))
       server_API_KEY (settles_to (Rejected UpstreamError))
       (anonymous\<lparr>query_city := Some ''Atlantis''\<rparr>)
     = Some (Responded \<lparr>status = 500, body = ErrorBody ''Failed to fetch weather data''\<rparr>)"
proof -
  let ?london = "anonymous\<lparr>query_city := Some ''London''\<rparr>"
  let ?atlantis = "anonymous\<lparr>query_city := Some ''Atlantis''\<rparr>"
  let ?off = "settles_to (Rejected UpstreamError) :: string \<Rightarrow> json settled settled"
  let ?down = "settles_to NetworkError :: string \<Rightarrow> http_result"
  let ?up = "settles_to (HttpResponse 200 (JsonText (JObj [(''main'', JObj [(''temp'', JNum 12)])])))
               :: string \<Rightarrow> http_result"
  let ?missing = "settles_to (HttpResponse 404 (JsonText (JObj [(''cod'', JStr ''404'')])))
               :: string \<Rightarrow> http_result"
  have q: "falsy (query_city anonymous)" "query_city ?london = Some ''London''"
    "query_city ?atlantis = Some ''Atlantis''"
    "''London'' \<noteq> []" "''Atlantis'' \<noteq> []" "falsy None" "''k1'' \<noteq> []"
    by (simp_all add: falsy_def anonymous_def)
  have 1: "api_weather (Some ''k1'') (axios_default ?down) server_API_KEY ?off anonymous
     = Some (Responded \<lparr>status = 400, body = ErrorBody ''City is required''\<rparr>)"
    using api_weather_relay [where req = anonymous and key = "Some ''k1''" and upstream = ?down
        and API_KEY = server_API_KEY and fetch = ?off] q by simp
  have 2: "api_weather None (axios_default ?down) server_API_KEY ?off ?london
     = Some (Responded \<lparr>status = 500, body = ErrorBody ''API key is missing''\<rparr>)"
    using api_weather_relay [where req = ?london and c = "''London''" and key = None
        and upstream = ?down and API_KEY = server_API_KEY and fetch = ?off] q by simp
  have 3: "api_weather (Some ''k1'') (axios_default ?up) server_API_KEY ?off ?london
     = Some (Responded \<lparr>status = 200,
                        body = JsonBody (JObj [(''main'', JObj [(''temp'', JNum 12)])])\<rparr>)"
    using api_weather_relay [where req = ?london and c = "''London''" and key = "Some ''k1''"
        and k = "''k1''" and upstream = ?up and API_KEY = server_API_KEY and fetch = ?off] q
    by (simp add: settles_to_def)
  have 4: "api_weather (Some ''k1'') (axios_default ?down) server_API_KEY ?off ?london
     = Some (Responded \<lparr>status = 500, body = ErrorBody ''Failed to fetch weather data''\<rparr>)"
    using api_weather_relay [where req = ?london and c = "''London''" and key = "Some ''k1''"
        and k = "''k1''" and upstream = ?down and API_KEY = server_API_KEY and fetch = ?off] q
    by (simp add: settles_to_def)
  have 5: "api_weather (Some ''k1'') (axios_default ?missing) server_API_KEY ?off ?atlantis
     = Some (Responded \<lparr>status = 500, body = ErrorBody ''Failed to fetch weather data''\<rparr>)"
    using api_weather_relay [where req = ?atlantis and c = "''Atlantis''" and key = "Some ''k1''"
        and k = "''k1''" and upstream = ?missing and API_KEY = server_API_KEY and fetch = ?off] q
    by (simp add: settles_to_def)
  from 1 2 3 4 5 show ?thesis by simp
qed

text \<open>
  C6 as stated fails for a malformed body: a response with status 200 whose body is
  not JSON is relayed with status 200, not answered with 500.
\<close>

theorem api_weather_malformed_counterexample:
  "api_weather (Some ''k1'')
       (axios_default (settles_to (HttpResponse 200 (OtherText ''<html>busy</html>''))))
       server_API_KEY (settles_to (Rejected UpstreamError))
       (anonymous\<lparr>query_city := Some ''London''\<rparr>)
     = Some (Responded \<lparr>status = 200, body = JsonBody (JStr ''<html>busy</html>'')\<rparr>)"
  by (simp add: api_weather_def getWeather_def axios_default_def settles_to_def anonymous_def)

subsection \<open>Failures and the startup check\<close>







end
